theory Spec2Isabelle
  imports Main "HOL-Library.Sublist"
begin

section \<open>JavaScript values\<close>

text \<open>
  The values that reach the chat logger from the host: the player object, the message
  text and the chat type of \<^verbatim>\<open>UI.addChatLine(player, text, chatType)\<close>.
  Numbers are the integer-valued ones (chat type codes). An object is a data object,
  given by its own properties in order, with \<^verbatim>\<open>Object.prototype\<close> as its prototype; a
  property holds a value of this type, so it is never a function or an accessor.
\<close>

datatype jsval =
    JUndefined
  | JNull
  | JBool bool
  | JNum int
  | JStr string
  | JObj "(string \<times> jsval) list"

text \<open>The condition of \<^verbatim>\<open>player ? ... : ...\<close>: JavaScript's ToBoolean.\<close>

fun truthy :: "jsval \<Rightarrow> bool" where
  "truthy JUndefined = False"
| "truthy JNull = False"
| "truthy (JBool b) = b"
| "truthy (JNum n) = (n \<noteq> 0)"
| "truthy (JStr s) = (s \<noteq> [])"
| "truthy (JObj ps) = True"

text \<open>
  The property read \<^verbatim>\<open>player.name\<close>. The source reads it of a truthy value only,
  so never of \<^verbatim>\<open>undefined\<close> or \<^verbatim>\<open>null\<close> (where JavaScript throws): an object
  gives its own property \<^verbatim>\<open>name\<close>, or \<^verbatim>\<open>undefined\<close> when it has none, and a
  primitive (a number, a boolean, a string) has no such property.
\<close>

fun get_name :: "jsval \<Rightarrow> jsval" where
  "get_name (JObj ps) = (case map_of ps ''name'' of Some v \<Rightarrow> v | None \<Rightarrow> JUndefined)"
| "get_name v = JUndefined"

text \<open>The decimal numeral of a natural number.\<close>

definition digit_char :: "nat \<Rightarrow> char" where
  "digit_char d = ''0123456789'' ! (d mod 10)"

fun digits :: "nat \<Rightarrow> string" where
  "digits n = (if n < 10 then [digit_char n] else digits (n div 10) @ [digit_char (n mod 10)])"

declare digits.simps [simp del]

text \<open>
  JavaScript's ToString, which \<^verbatim>\<open>setAttribute\<close> applies to the value it is given.
  It throws a TypeError for an object with an own property \<^verbatim>\<open>toString\<close>: the property
  is not a function, and the inherited \<^verbatim>\<open>valueOf\<close> (or an own one, not a function
  either) gives no primitive. \<open>conversion_throws\<close> says where it throws and
  \<open>ToString\<close> gives the string where it returns: the word undefined, null, true or
  false, the string itself, \<^verbatim>\<open>[object Object]\<close> through the inherited
  \<^verbatim>\<open>toString\<close>, and for a number its decimal numeral, which is JavaScript's string
  for the safe integers (\<open>safe_integer\<close>; from \<open>2 ^ 53\<close> on a number need not print
  all its digits).
\<close>

fun conversion_throws :: "jsval \<Rightarrow> bool" where
  "conversion_throws (JObj ps) = (''toString'' \<in> set (map fst ps))"
| "conversion_throws v = False"

definition safe_integer :: "jsval \<Rightarrow> bool" where
  "safe_integer v = (case v of JNum n \<Rightarrow> \<bar>n\<bar> < 2 ^ 53 | _ \<Rightarrow> True)"

fun ToString :: "jsval \<Rightarrow> string" where
  "ToString JUndefined = ''undefined''"
| "ToString JNull = ''null''"
| "ToString (JBool b) = (if b then ''true'' else ''false'')"
| "ToString (JNum n) = (if n < 0 then ''-'' @ digits (nat (- n)) else digits (nat n))"
| "ToString (JStr s) = s"
| "ToString (JObj ps) = ''[object Object]''"

section \<open>The clock\<close>

text \<open>
  What \<^verbatim>\<open>new Date()\<close> holds, by its UTC fields (\<^verbatim>\<open>toISOString\<close> prints UTC):
  month 1 to 12, day 1 to 31, hour 0 to 23, minute and second 0 to 59, millisecond 0 to 999.
\<close>

record date =
  year :: int
  month :: nat
  day :: nat
  hour :: nat
  minute :: nat
  second :: nat
  millisecond :: nat

definition pad :: "nat \<Rightarrow> nat \<Rightarrow> string" where
  "pad w n = replicate (w - length (digits n)) CHR ''0'' @ digits n"

text \<open>
  \<^verbatim>\<open>Date.prototype.toISOString\<close>: \<^verbatim>\<open>YYYY-MM-DDTHH:mm:ss.sssZ\<close>, the year in four
  digits from 0 to 9999 and as a sign and six digits outside.
\<close>

definition toISOString :: "date \<Rightarrow> string" where
  "toISOString d =
     (if 0 \<le> year d \<and> year d \<le> 9999 then pad 4 (nat (year d))
      else (if year d < 0 then ''-'' else ''+'') @ pad 6 (nat \<bar>year d\<bar>))
     @ ''-'' @ pad 2 (month d) @ ''-'' @ pad 2 (day d)
     @ ''T'' @ pad 2 (hour d) @ '':'' @ pad 2 (minute d) @ '':'' @ pad 2 (second d)
     @ ''.'' @ pad 3 (millisecond d) @ ''Z''"

text \<open>\<^verbatim>\<open>s.slice(0, n)\<close> for a string at least as long as 0 and \<open>n\<close> not negative.\<close>

definition slice0 :: "nat \<Rightarrow> string \<Rightarrow> string" where
  "slice0 n s = take n s"

text \<open>\<^verbatim>\<open>s.replace(c, r)\<close> with a one-character string pattern: the first occurrence only.\<close>

fun replace_first :: "char \<Rightarrow> char \<Rightarrow> string \<Rightarrow> string" where
  "replace_first c r [] = []"
| "replace_first c r (x # xs) = (if x = c then r # xs else x # replace_first c r xs)"

text \<open>\<^verbatim>\<open>s.replace(/c/g, r)\<close>: every occurrence.\<close>

definition replace_all :: "char \<Rightarrow> char \<Rightarrow> string \<Rightarrow> string" where
  "replace_all c r s = map (\<lambda>x. if x = c then r else x) s"

text \<open>\<^verbatim>\<open>new Date().toISOString().slice(0, 19).replace('T', ' ')\<close>, the time of a record.\<close>

definition timestamp_of :: "date \<Rightarrow> string" where
  "timestamp_of d = replace_first CHR ''T'' CHR '' '' (slice0 19 (toISOString d))"

text \<open>\<^verbatim>\<open>new Date().toISOString().slice(0, 19).replace(/:/g, '-')\<close>, the time in a file name.\<close>

definition filestamp_of :: "date \<Rightarrow> string" where
  "filestamp_of d = replace_all CHR '':'' CHR ''-'' (slice0 19 (toISOString d))"

section \<open>The document\<close>

text \<open>
  A DOM node is a text node or an element with its tag name (lower case, as
  \<^verbatim>\<open>createElement\<close> and the HTML parser store it), its attributes in order and its
  children in order.
\<close>

datatype node =
    Text string
  | Element string "(string \<times> string) list" "node list"

definition createElement :: "string \<Rightarrow> node" where
  "createElement tg = Element tg [] []"

fun set_attr :: "string \<Rightarrow> string \<Rightarrow> (string \<times> string) list \<Rightarrow> (string \<times> string) list" where
  "set_attr k v [] = [(k, v)]"
| "set_attr k v ((k', v') # as) = (if k' = k then (k, v) # as else (k', v') # set_attr k v as)"

fun setAttribute :: "string \<Rightarrow> string \<Rightarrow> node \<Rightarrow> node" where
  "setAttribute k v (Element tg as cs) = Element tg (set_attr k v as) cs"
| "setAttribute k v (Text t) = Text t"

text \<open>\<^verbatim>\<open>getAttribute\<close>: \<^verbatim>\<open>null\<close> (None) when the element has no such attribute.\<close>

fun getAttribute :: "string \<Rightarrow> node \<Rightarrow> string option" where
  "getAttribute k (Element tg as cs) = map_of as k"
| "getAttribute k (Text t) = None"

text \<open>A node followed by its descendants, in document order.\<close>

fun subtree :: "node \<Rightarrow> node list" where
  "subtree (Text t) = [Text t]"
| "subtree (Element tg as cs) = Element tg as cs # concat (map subtree cs)"

definition descendants :: "node list \<Rightarrow> node list" where
  "descendants cs = concat (map subtree cs)"

fun children :: "node \<Rightarrow> node list" where
  "children (Element tg as cs) = cs"
| "children (Text t) = []"

fun is_tag :: "string \<Rightarrow> node \<Rightarrow> bool" where
  "is_tag tg (Element tg' as cs) = (tg' = tg)"
| "is_tag tg (Text t) = False"

text \<open>The tokens of a \<^verbatim>\<open>class\<close> attribute: split at ASCII white space.\<close>

definition is_space :: "char \<Rightarrow> bool" where
  "is_space c = (c \<in> set [CHR '' '', CHR 0x09, CHR 0x0A, CHR 0x0C, CHR 0x0D])"

fun tokens_acc :: "string \<Rightarrow> string \<Rightarrow> string list" where
  "tokens_acc cur [] = (if cur = [] then [] else [cur])"
| "tokens_acc cur (c # cs) =
     (if is_space c then (if cur = [] then tokens_acc [] cs else cur # tokens_acc [] cs)
      else tokens_acc (cur @ [c]) cs)"

definition has_class :: "string \<Rightarrow> node \<Rightarrow> bool" where
  "has_class cl n =
     (case getAttribute ''class'' n of None \<Rightarrow> False | Some v \<Rightarrow> cl \<in> set (tokens_acc [] v))"

text \<open>\<^verbatim>\<open>node.textContent\<close>: the text of the text nodes below, in document order.\<close>

fun textContent :: "node \<Rightarrow> string" where
  "textContent (Text t) = t"
| "textContent (Element tg as cs) = concat (map textContent cs)"

text \<open>
  \<^verbatim>\<open>document.getElementById(i)\<close> over the nodes of the page: the first element in
  document order whose \<^verbatim>\<open>id\<close> is \<open>i\<close>.
\<close>

definition getElementById :: "string \<Rightarrow> node list \<Rightarrow> node option" where
  "getElementById i page = find (\<lambda>n. getAttribute ''id'' n = Some i) (descendants page)"

text \<open>\<^verbatim>\<open>querySelectorAll('div')\<close> below the given child nodes.\<close>

definition querySelectorAll_div :: "node list \<Rightarrow> node list" where
  "querySelectorAll_div cs = filter (is_tag ''div'') (descendants cs)"

text \<open>\<^verbatim>\<open>e.querySelectorAll('div.line')\<close>: the descendants of \<open>e\<close>, not \<open>e\<close> itself.\<close>

definition querySelectorAll_div_line :: "node \<Rightarrow> node list" where
  "querySelectorAll_div_line e =
     filter (\<lambda>n. is_tag ''div'' n \<and> has_class ''line'' n) (descendants (children e))"

text \<open>\<^verbatim>\<open>e.querySelector('.cl')\<close>: the first descendant with the class, or \<^verbatim>\<open>null\<close>.\<close>

definition querySelector_class :: "string \<Rightarrow> node \<Rightarrow> node option" where
  "querySelector_class cl e = find (has_class cl) (descendants (children e))"

text \<open>\<^verbatim>\<open>xs.join(sep)\<close> on an array of strings.\<close>

fun join :: "string \<Rightarrow> string list \<Rightarrow> string" where
  "join sep [] = []"
| "join sep [x] = x"
| "join sep (x # y # ys) = x @ sep @ join sep (y # ys)"

section \<open>The state of the chat logger and of its host\<close>

text \<open>
  A host function is the host's own \<^verbatim>\<open>UI.addChatLine\<close>: given its \<^verbatim>\<open>this\<close>
  binding and its three arguments, it changes the host's nodes of the page and the host's
  private state, and returns a value or throws one. It does not call back into
  \<^verbatim>\<open>UI.addChatLine\<close> and does not touch the log container. A call ends by
  returning a value, by throwing a value of the host's, or by the TypeError that the
  engine throws where a conversion to a string fails.
\<close>

datatype binding = BoundUI | BoundOther

datatype outcome = Return jsval | Throw jsval | ThrowTypeError

type_synonym 'h hostfn =
  "binding \<Rightarrow> jsval \<Rightarrow> jsval \<Rightarrow> jsval \<Rightarrow> node list \<times> 'h \<Rightarrow> outcome \<times> node list \<times> 'h"

text \<open>
  What \<^verbatim>\<open>UI.addChatLine\<close> holds: a function of the host, or the arrow function that
  \<^verbatim>\<open>hookChatSystem\<close> puts there, which closes over \<^verbatim>\<open>originalAddChatLine\<close>.
\<close>

datatype 'h chatfn = HostFn "'h hostfn" | Hooked "'h chatfn"

datatype level = Log | Error

record download =
  filename :: string
  mime :: string
  content :: string

text \<open>The two actions of the page that \<^verbatim>\<open>init\<close> registers (the icons are left out).\<close>

datatype handler = DownloadChat | ClearChat

record menu_item =
  item_id :: string
  item_text :: string
  keybind :: string
  onClick :: handler

text \<open>
  The state once \<^verbatim>\<open>init\<close> has created the log container. \<open>logContainer\<close> holds the
  child nodes of the hidden \<^verbatim>\<open>div#chat-log-container\<close>, which \<^verbatim>\<open>init\<close> creates and
  appends to the body; \<open>document\<close> holds the other nodes of the body, the host's.
  \<open>UI_addChatLine\<close> is None when \<^verbatim>\<open>UI\<close> or \<^verbatim>\<open>UI.addChatLine\<close> is missing.
  \<open>clock\<close> gives the time that the \<open>k\<close>-th \<^verbatim>\<open>new Date()\<close> reads and \<open>ticks\<close>
  counts the readings so far. \<open>console\<close>, \<open>alerts\<close> and \<open>downloads\<close> record what
  was printed, what \<^verbatim>\<open>alert\<close> showed and which files the anchor's click handed to the
  browser; \<open>pages\<close> what \<^verbatim>\<open>GameMenuExtension.addPage\<close> was given. The anchor itself
  and the revoking of its URL after 100 ms are left out.
\<close>

record 'h state =
  logContainer :: "node list"
  UI_addChatLine :: "'h chatfn option"
  document :: "node list"
  host :: 'h
  clock :: "nat \<Rightarrow> date"
  ticks :: nat
  console :: "(level \<times> string) list"
  alerts :: "string list"
  downloads :: "download list"
  pages :: "(string \<times> menu_item list) list"

definition console_log :: "string \<Rightarrow> 'h state \<Rightarrow> 'h state" where
  "console_log m s = s\<lparr>console := console s @ [(Log, m)]\<rparr>"

definition console_error :: "string \<Rightarrow> 'h state \<Rightarrow> 'h state" where
  "console_error m s = s\<lparr>console := console s @ [(Error, m)]\<rparr>"

definition alert :: "string \<Rightarrow> 'h state \<Rightarrow> 'h state" where
  "alert m s = s\<lparr>alerts := alerts s @ [m]\<rparr>"

text \<open>
  The nodes of the body: the host's, then the log container (\<^verbatim>\<open>init\<close> sets its
  \<^verbatim>\<open>id\<close>, hides it and appends it).
\<close>

definition container :: "node list \<Rightarrow> node" where
  "container cs =
     Element ''div'' [(''id'', ''chat-log-container''), (''style'', ''display: none;'')] cs"

definition body :: "'h state \<Rightarrow> node list" where
  "body s = document s @ [container (logContainer s)]"

section \<open>logMessage\<close>

text \<open>The \<^verbatim>\<open>switch\<close> on the chat type: strict equality with 1, 2 and 3, in this order.\<close>

definition typeText :: "jsval \<Rightarrow> string" where
  "typeText chatType =
     (if chatType = JNum 1 then ''WHISPER_TO''
      else if chatType = JNum 2 then ''WHISPER_FROM''
      else if chatType = JNum 3 then ''TEAM''
      else '''')"

definition playerName :: "jsval \<Rightarrow> string" where
  "playerName player = (if truthy player then ToString (get_name player) else ''Unknown'')"

text \<open>
  The element that \<^verbatim>\<open>logMessage\<close> builds for a message read at time \<open>d\<close>, when
  every \<^verbatim>\<open>setAttribute\<close> returns.
\<close>

definition logEntry :: "date \<Rightarrow> jsval \<Rightarrow> jsval \<Rightarrow> jsval \<Rightarrow> node" where
  "logEntry d player text chatType =
     setAttribute ''data-text'' (ToString text)
       (setAttribute ''data-type'' (typeText chatType)
         (setAttribute ''data-player'' (playerName player)
           (setAttribute ''data-timestamp'' (timestamp_of d)
             (createElement ''div''))))"

text \<open>The state after a call of \<^verbatim>\<open>logMessage\<close> that returns.\<close>

definition logMessage :: "jsval \<Rightarrow> jsval \<Rightarrow> jsval \<Rightarrow> 'h state \<Rightarrow> 'h state" where
  "logMessage player text chatType s =
     s\<lparr>logContainer := logContainer s @ [logEntry (clock s (ticks s)) player text chatType],
       ticks := Suc (ticks s)\<rparr>"

text \<open>
  A call of \<^verbatim>\<open>logMessage\<close>. It reads the clock first. The player's name is converted
  by \<^verbatim>\<open>setAttribute('data-player', playerName)\<close> when the player is truthy (the literal
  Unknown otherwise) and the text by \<^verbatim>\<open>setAttribute('data-text', text)\<close>; where one
  of the two conversions throws, the call throws the TypeError before
  \<^verbatim>\<open>appendChild\<close>, and nothing is appended. Otherwise it returns \<^verbatim>\<open>undefined\<close>.
\<close>

definition logMessage_throws :: "jsval \<Rightarrow> jsval \<Rightarrow> bool" where
  "logMessage_throws player text =
     ((truthy player \<and> conversion_throws (get_name player)) \<or> conversion_throws text)"

definition logMessage_call :: "jsval \<Rightarrow> jsval \<Rightarrow> jsval \<Rightarrow> 'h state \<Rightarrow> outcome \<times> 'h state" where
  "logMessage_call player text chatType s =
     (if logMessage_throws player text then (ThrowTypeError, s\<lparr>ticks := Suc (ticks s)\<rparr>)
      else (Return JUndefined, logMessage player text chatType s))"

section \<open>hookChatSystem and the hooked function\<close>

definition hookChatSystem :: "'h state \<Rightarrow> 'h state" where
  "hookChatSystem s =
     (case UI_addChatLine s of
        Some originalAddChatLine \<Rightarrow>
          console_log ''Successfully hooked into chat system''
            (s\<lparr>UI_addChatLine := Some (Hooked originalAddChatLine)\<rparr>)
      | None \<Rightarrow> console_error ''UI.addChatLine not found, chat logging not available'' s)"

text \<open>
  Calling what \<^verbatim>\<open>UI.addChatLine\<close> holds, with a \<^verbatim>\<open>this\<close> binding and three
  arguments. The arrow function ignores its own binding, calls the original with
  \<^verbatim>\<open>UI\<close> as \<^verbatim>\<open>this\<close>, and has no \<^verbatim>\<open>return\<close>: when the original throws, the
  exception leaves the arrow function before \<^verbatim>\<open>logMessage\<close>; otherwise
  \<^verbatim>\<open>logMessage\<close> is called, and the arrow function throws what that call throws or
  returns \<^verbatim>\<open>undefined\<close>.
\<close>

fun call :: "'h chatfn \<Rightarrow> binding \<Rightarrow> jsval \<Rightarrow> jsval \<Rightarrow> jsval \<Rightarrow> 'h state \<Rightarrow> outcome \<times> 'h state" where
  "call (HostFn f) this player text chatType s =
     (case f this player text chatType (document s, host s) of
        (r, doc, h) \<Rightarrow> (r, s\<lparr>document := doc, host := h\<rparr>))"
| "call (Hooked originalAddChatLine) this player text chatType s =
     (case call originalAddChatLine BoundUI player text chatType s of
        (Return v, s') \<Rightarrow>
          (case logMessage_call player text chatType s' of
             (Return u, s'') \<Rightarrow> (Return JUndefined, s'')
           | (Throw e, s'') \<Rightarrow> (Throw e, s'')
           | (ThrowTypeError, s'') \<Rightarrow> (ThrowTypeError, s''))
      | (Throw e, s') \<Rightarrow> (Throw e, s')
      | (ThrowTypeError, s') \<Rightarrow> (ThrowTypeError, s'))"

section \<open>clearLog\<close>

definition clearLog :: "'h state \<Rightarrow> 'h state" where
  "clearLog s =
     alert ''Chat log cleared'' ((console_log ''Clearing chat log...'' s)\<lparr>logContainer := []\<rparr>)"

section \<open>downloadTextFile, downloadCurrentChat, downloadLog\<close>

definition downloadTextFile :: "string \<Rightarrow> string \<Rightarrow> 'h state \<Rightarrow> 'h state" where
  "downloadTextFile text name s =
     console_log ''Triggering download...''
       ((console_log (''Downloading text file: '' @ name) s)
          \<lparr>downloads := downloads s @ [\<lparr>filename = name, mime = ''text/plain'', content = text\<rparr>]\<rparr>)"

text \<open>The text of a sub-element found by its class, the empty string when there is none.\<close>

definition sub_text :: "string \<Rightarrow> node \<Rightarrow> string" where
  "sub_text cl e = (case querySelector_class cl e of Some x \<Rightarrow> textContent x | None \<Rightarrow> [])"

text \<open>The line that \<^verbatim>\<open>downloadCurrentChat\<close> makes of one chat line, stamped with \<open>d\<close>.\<close>

definition chatLine :: "date \<Rightarrow> node \<Rightarrow> string" where
  "chatLine d e =
     (let tag = sub_text ''tag'' e;
          sender = sub_text ''nick'' e;
          message = sub_text ''text'' e;
          timestamp = timestamp_of d
      in if tag \<noteq> [] then ''['' @ timestamp @ ''] ['' @ tag @ ''] '' @ sender @ '': '' @ message
         else ''['' @ timestamp @ ''] '' @ sender @ '': '' @ message)"

text \<open>The loop over the chat lines: each one reads the clock anew.\<close>

fun chatLines_forEach :: "(nat \<Rightarrow> date) \<Rightarrow> nat \<Rightarrow> node list \<Rightarrow> string list" where
  "chatLines_forEach clk k [] = []"
| "chatLines_forEach clk k (e # es) = chatLine (clk k) e # chatLines_forEach clk (Suc k) es"

definition newline :: string where
  "newline = [CHR 0x0A]"

definition downloadCurrentChat :: "'h state \<Rightarrow> 'h state" where
  "downloadCurrentChat s0 =
     (let s1 = console_log ''Downloading current chat from DOM...'' s0 in
      case getElementById ''chatlines'' (body s1) of
        None \<Rightarrow> alert ''Chat container not found'' (console_error ''Chat container not found'' s1)
      | Some chatLines \<Rightarrow>
          (let chatDivs = querySelectorAll_div_line chatLines;
               messages = chatLines_forEach (clock s1) (ticks s1) chatDivs;
               s2 = s1\<lparr>ticks := ticks s1 + length chatDivs\<rparr>
           in if length messages = 0
              then alert ''No chat messages found'' (console_log ''No chat messages found'' s2)
              else (let s3 = console_log (''Found '' @ digits (length messages) @ '' messages in DOM'') s2;
                        d = clock s3 (ticks s3);
                        s4 = s3\<lparr>ticks := Suc (ticks s3)\<rparr>
                    in downloadTextFile (join newline messages)
                         (''game-chat-'' @ filestamp_of d @ ''.txt'') s4)))"

text \<open>
  A template literal prints \<^verbatim>\<open>null\<close>, which \<^verbatim>\<open>getAttribute\<close> gives for a missing
  attribute, as the word null.
\<close>

definition template :: "string option \<Rightarrow> string" where
  "template a = (case a of None \<Rightarrow> ''null'' | Some v \<Rightarrow> v)"

text \<open>The line that \<^verbatim>\<open>downloadLog\<close> makes of one entry of the log container.\<close>

definition formatEntry :: "node \<Rightarrow> string" where
  "formatEntry entry =
     (let timestamp = getAttribute ''data-timestamp'' entry;
          player = getAttribute ''data-player'' entry;
          type = getAttribute ''data-type'' entry;
          text = getAttribute ''data-text'' entry
      in if type \<noteq> None \<and> type \<noteq> Some []
         then ''['' @ template timestamp @ ''] ['' @ template type @ ''] '' @ template player
                @ '': '' @ template text
         else ''['' @ template timestamp @ ''] '' @ template player @ '': '' @ template text)"

definition downloadLog :: "'h state \<Rightarrow> 'h state" where
  "downloadLog s0 =
     (let s1 = console_log ''Attempting to download chat log...'' s0;
          entries = querySelectorAll_div (logContainer s1)
      in if length entries = 0
         then downloadCurrentChat
                (console_log ''No logged entries found, falling back to DOM extraction'' s1)
         else (let messages = map formatEntry entries;
                   s2 = console_log (''Found '' @ digits (length messages) @ '' messages to download'') s1;
                   d = clock s2 (ticks s2);
                   s3 = s2\<lparr>ticks := Suc (ticks s2)\<rparr>
               in downloadTextFile (join newline messages)
                    (''game-chat-log-'' @ filestamp_of d @ ''.txt'') s3))"

section \<open>init and the operations of the module\<close>

text \<open>The \<^verbatim>\<open>onClick\<close> of the two menu items.\<close>

definition click :: "handler \<Rightarrow> 'h state \<Rightarrow> 'h state" where
  "click h s =
     (case h of
        DownloadChat \<Rightarrow> downloadLog (console_log ''Download chat button clicked'' s)
      | ClearChat \<Rightarrow> clearLog (console_log ''Clear chat button clicked'' s))"

text \<open>
  \<^verbatim>\<open>init\<close>, from the state before it: it does not look at \<open>logContainer\<close> (which
  the source starts as \<^verbatim>\<open>null\<close>) and creates the container, empty; then it hooks the
  chat function and registers the page with the two menu items.
\<close>

definition init :: "'h state \<Rightarrow> 'h state" where
  "init s =
     (let s1 = hookChatSystem (s\<lparr>logContainer := []\<rparr>);
          s2 = console_log ''Chat Logger initialized'' s1
      in s2\<lparr>pages := pages s2 @
           [(''Chat Options'',
             [\<lparr>item_id = ''download-chat'', item_text = ''Download Chat'', keybind = ''D'',
               onClick = DownloadChat\<rparr>,
              \<lparr>item_id = ''clear-chat'', item_text = ''Clear Chat'', keybind = ''C'',
               onClick = ClearChat\<rparr>])]\<rparr>)"

text \<open>
  What can happen to an initialised logger: a call of one of its functions, a call of
  \<^verbatim>\<open>UI.addChatLine\<close> by the host, a click on one of the two menu items.
\<close>

datatype operation =
    OpHookChatSystem
  | OpLogMessage jsval jsval jsval
  | OpClearLog
  | OpDownloadLog
  | OpDownloadCurrentChat
  | OpDownloadTextFile string string
  | OpAddChatLine binding jsval jsval jsval
  | OpClick handler

fun perform :: "operation \<Rightarrow> 'h state \<Rightarrow> 'h state" where
  "perform OpHookChatSystem s = hookChatSystem s"
| "perform (OpLogMessage player text chatType) s = snd (logMessage_call player text chatType s)"
| "perform OpClearLog s = clearLog s"
| "perform OpDownloadLog s = downloadLog s"
| "perform OpDownloadCurrentChat s = downloadCurrentChat s"
| "perform (OpDownloadTextFile text name) s = downloadTextFile text name s"
| "perform (OpAddChatLine this player text chatType) s =
     (case UI_addChatLine s of
        None \<Rightarrow> s
      | Some f \<Rightarrow> snd (call f this player text chatType s))"
| "perform (OpClick h) s = click h s"

text \<open>A full clear: \<^verbatim>\<open>clearLog\<close>, called or clicked.\<close>

fun is_clear :: "operation \<Rightarrow> bool" where
  "is_clear OpClearLog = True"
| "is_clear (OpClick ClearChat) = True"
| "is_clear _ = False"

text \<open>A sequence of operations, one after the other.\<close>

fun run :: "operation list \<Rightarrow> 'h state \<Rightarrow> 'h state" where
  "run [] s = s"
| "run (op # ops) s = run ops (perform op s)"

text \<open>A sequence of messages logged one after the other, every call returning.\<close>

fun logMessages :: "(jsval \<times> jsval \<times> jsval) list \<Rightarrow> 'h state \<Rightarrow> 'h state" where
  "logMessages [] s = s"
| "logMessages ((player, text, chatType) # ms) s = logMessages ms (logMessage player text chatType s)"

text \<open>The records of the log, read back as \<^verbatim>\<open>downloadLog\<close> reads them.\<close>

definition readAll :: "'h state \<Rightarrow> node list" where
  "readAll s = querySelectorAll_div (logContainer s)"

section \<open>The transcript in the words of the specification\<close>

text \<open>
  One line of the transcript, from the four fields of a record: the time, the category
  label (empty for the category NONE, which has no label), the sender and the text.
\<close>

definition render :: "string \<Rightarrow> string \<Rightarrow> string \<Rightarrow> string \<Rightarrow> string" where
  "render timestamp category sender text =
     (if category \<noteq> [] then ''['' @ timestamp @ ''] ['' @ category @ ''] '' @ sender @ '': '' @ text
      else ''['' @ timestamp @ ''] '' @ sender @ '': '' @ text)"

text \<open>
  The records and the transcript lines of a sequence of messages, the first of them
  logged at the \<open>k\<close>-th reading of the clock.
\<close>

fun records :: "(nat \<Rightarrow> date) \<Rightarrow> nat \<Rightarrow> (jsval \<times> jsval \<times> jsval) list \<Rightarrow> node list" where
  "records clk k [] = []"
| "records clk k ((player, text, chatType) # ms) =
     logEntry (clk k) player text chatType # records clk (Suc k) ms"

fun transcript :: "(nat \<Rightarrow> date) \<Rightarrow> nat \<Rightarrow> (jsval \<times> jsval \<times> jsval) list \<Rightarrow> string list" where
  "transcript clk k [] = []"
| "transcript clk k ((player, text, chatType) # ms) =
     render (timestamp_of (clk k)) (typeText chatType) (playerName player) (ToString text)
       # transcript clk (Suc k) ms"

section \<open>A host to run the logger on\<close>

definition date0 :: date where
  "date0 = \<lparr>year = 2024, month = 1, day = 2, hour = 3, minute = 4, second = 5, millisecond = 678\<rparr>"

text \<open>
  A host function that shows the line, counts it and returns \<^verbatim>\<open>true\<close>, and one that
  throws.
\<close>

definition host_addChatLine :: "nat hostfn" where
  "host_addChatLine this player text chatType w =
     (Return (JBool True),
      fst w @ [Element ''div'' [(''class'', ''line'')] [Text (ToString text)]],
      Suc (snd w))"

definition host_failing :: "nat hostfn" where
  "host_failing this player text chatType w = (Throw (JStr ''no chat window''), w)"

text \<open>
  A host function that notes in the host's state how it was bound (1 for \<^verbatim>\<open>UI\<close>,
  2 otherwise) and does not look at its arguments.
\<close>

definition host_bound :: "nat hostfn" where
  "host_bound this player text chatType w =
     (Return JUndefined, fst w, if this = BoundUI then 1 else 2)"

text \<open>A text that no \<^verbatim>\<open>setAttribute\<close> can convert.\<close>

definition unprintable :: jsval where
  "unprintable = JObj [(''toString'', JNum 1)]"

text \<open>A chat window with one line, an empty one, and a player.\<close>

definition chat_window :: "node list" where
  "chat_window =
     [Element ''div'' [(''id'', ''chatlines'')]
        [Element ''div'' [(''class'', ''line own'')]
           [Element ''span'' [(''class'', ''nick'')] [Text ''Alice''],
            Element ''span'' [(''class'', ''text'')] [Text ''hi'']]]]"

definition empty_window :: "node list" where
  "empty_window = [Element ''div'' [(''id'', ''chatlines'')] []]"

definition alice :: jsval where
  "alice = JObj [(''id'', JNum 7), (''name'', JStr ''Alice'')]"

definition bob :: jsval where
  "bob = JObj [(''name'', JStr ''Bob'')]"

text \<open>The logger right after its creation, on a given host function and page.\<close>

definition fresh :: "nat hostfn \<Rightarrow> node list \<Rightarrow> nat state" where
  "fresh f page =
     \<lparr>logContainer = [], UI_addChatLine = Some (HostFn f), document = page, host = 0,
      clock = (\<lambda>k. date0\<lparr>second := (4 + k) mod 60\<rparr>), ticks = 0,
      console = [], alerts = [], downloads = [], pages = []\<rparr>"

text \<open>The fresh logger after one message, and two messages to log.\<close>

definition one_logged :: "nat state" where
  "one_logged = logMessage alice (JStr ''hi'') (JNum 0) (fresh host_addChatLine chat_window)"

definition two_messages :: "(jsval \<times> jsval \<times> jsval) list" where
  "two_messages = [(alice, JStr ''hi'', JNum 0), (bob, JStr ''hey'', JNum 3)]"

section \<open>Lemmas\<close>

subsection \<open>Reading the log back\<close>

lemma logEntry_eq:
  "logEntry d p t c = Element ''div''
     [(''data-timestamp'', timestamp_of d), (''data-player'', playerName p),
      (''data-type'', typeText c), (''data-text'', ToString t)] []"
  by (simp add: logEntry_def createElement_def)

lemma descendants_snoc: "descendants (cs @ [e]) = descendants cs @ subtree e"
  by (simp add: descendants_def)

lemma readAll_logMessage:
  "readAll (logMessage p t c s) = readAll s @ [logEntry (clock s (ticks s)) p t c]"
  by (simp add: readAll_def logMessage_def querySelectorAll_div_def descendants_snoc logEntry_eq)

lemma clock_logMessage: "clock (logMessage p t c s) = clock s"
  by (simp add: logMessage_def)

lemma ticks_logMessage: "ticks (logMessage p t c s) = Suc (ticks s)"
  by (simp add: logMessage_def)

lemma readAll_logMessages:
  "readAll (logMessages ms s) = readAll s @ records (clock s) (ticks s) ms"
proof (induction ms arbitrary: s)
  case Nil
  show ?case by simp
next
  case (Cons m ms)
  obtain p t c where m: "m = (p, t, c)" by (cases m)
  show ?case
    by (simp add: m Cons.IH readAll_logMessage clock_logMessage ticks_logMessage)
qed

lemma length_records: "length (records clk k ms) = length ms"
  by (induction ms arbitrary: k) auto

lemma formatEntry_logEntry:
  "formatEntry (logEntry d p t c) =
     render (timestamp_of d) (typeText c) (playerName p) (ToString t)"
  by (simp add: logEntry_eq formatEntry_def render_def template_def)

lemma map_formatEntry_records:
  "map formatEntry (records clk k ms) = transcript clk k ms"
  by (induction ms arbitrary: k) (auto simp: formatEntry_logEntry)

lemma join_cons: "join sep (x # xs) = x @ concat (map (\<lambda>l. sep @ l) xs)"
  by (induction xs arbitrary: x) auto

subsection \<open>Functions that leave the log container alone\<close>

lemma logContainer_console_log [simp]: "logContainer (console_log m s) = logContainer s"
  by (simp add: console_log_def)

lemma logContainer_console_error [simp]: "logContainer (console_error m s) = logContainer s"
  by (simp add: console_error_def)

lemma logContainer_alert [simp]: "logContainer (alert m s) = logContainer s"
  by (simp add: alert_def)

lemma logContainer_downloadTextFile [simp]:
  "logContainer (downloadTextFile text name s) = logContainer s"
  by (simp add: downloadTextFile_def)

lemma logContainer_downloadCurrentChat [simp]:
  "logContainer (downloadCurrentChat s) = logContainer s"
  by (simp add: downloadCurrentChat_def Let_def split: option.splits)

lemma logContainer_downloadLog [simp]: "logContainer (downloadLog s) = logContainer s"
  by (simp add: downloadLog_def Let_def)

lemma logContainer_hookChatSystem [simp]: "logContainer (hookChatSystem s) = logContainer s"
  by (simp add: hookChatSystem_def split: option.splits)

lemma logMessage_call_cases:
  "(case logMessage_call p t c s of
      (Return u, s'') \<Rightarrow> (Return JUndefined, s'')
    | (Throw e, s'') \<Rightarrow> (Throw e, s'')
    | (ThrowTypeError, s'') \<Rightarrow> (ThrowTypeError, s'')) = logMessage_call p t c s"
  by (simp add: logMessage_call_def)

lemma readAll_logMessage_call:
  "readAll (snd (logMessage_call p t c s)) =
     (if logMessage_throws p t then readAll s
      else readAll s @ [logEntry (clock s (ticks s)) p t c])"
proof (cases "logMessage_throws p t")
  case True
  then show ?thesis by (simp add: logMessage_call_def readAll_def)
next
  case False
  then show ?thesis by (simp add: logMessage_call_def readAll_logMessage)
qed

lemma readAll_call_prefix: "prefix (readAll s) (readAll (snd (call f this p t c s)))"
proof (induction f arbitrary: this s)
  case (HostFn g)
  show ?case by (simp add: readAll_def split: prod.splits)
next
  case (Hooked orig)
  obtain r s' where c: "call orig BoundUI p t c s = (r, s')" by (cases "call orig BoundUI p t c s")
  have pre: "prefix (readAll s) (readAll s')" using Hooked.IH [where s = s and this = BoundUI] c by simp
  show ?case
  proof (cases r)
    case (Return v)
    then show ?thesis
      using pre c by (simp add: logMessage_call_cases readAll_logMessage_call prefix_prefix)
  next
    case (Throw e)
    then show ?thesis using pre c by simp
  next
    case ThrowTypeError
    then show ?thesis using pre c by simp
  qed
qed

lemma perform_keeps_records:
  "\<not> is_clear op \<Longrightarrow> prefix (readAll s) (readAll (perform op s))"
proof (cases op)
  case (OpLogMessage p t c)
  then show ?thesis by (simp add: readAll_logMessage_call)
next
  case (OpAddChatLine this p t c)
  then show ?thesis by (simp add: readAll_call_prefix split: option.splits)
next
  case (OpClick h)
  assume "\<not> is_clear op"
  with OpClick have "h = DownloadChat" by (cases h) auto
  with OpClick show ?thesis by (simp add: click_def readAll_def)
qed (auto simp: readAll_def)


lemma run_keeps_records:
  "list_all (\<lambda>op. \<not> is_clear op) ops \<Longrightarrow> prefix (readAll s) (readAll (run ops s))"
proof (induction ops arbitrary: s)
  case Nil
  show ?case by simp
next
  case (Cons op ops)
  from Cons.prems have "\<not> is_clear op" and rest: "list_all (\<lambda>op. \<not> is_clear op) ops"
    by simp_all
  then have "prefix (readAll s) (readAll (perform op s))"
    by (simp add: perform_keeps_records)
  moreover have "prefix (readAll (perform op s)) (readAll (run ops (perform op s)))"
    using rest by (rule Cons.IH)
  ultimately show ?case by (auto intro: prefix_order.trans)
qed

subsection \<open>What an export hands to the browser\<close>

lemma length_chatLines_forEach: "length (chatLines_forEach clk k es) = length es"
  by (induction es arbitrary: k) auto

lemma chatLines_forEach_Nil: "(chatLines_forEach clk k es = []) = (es = [])"
  by (cases es) auto

lemma downloadLog_primary:
  assumes "readAll s \<noteq> []"
  shows "downloads (downloadLog s) = downloads s @
           [\<lparr>filename = ''game-chat-log-'' @ filestamp_of (clock s (ticks s)) @ ''.txt'',
             mime = ''text/plain'',
             content = join newline (map formatEntry (readAll s))\<rparr>]"
  using assms
  by (simp add: downloadLog_def readAll_def Let_def downloadTextFile_def console_log_def)

lemma downloadCurrentChat_missing:
  assumes "getElementById ''chatlines'' (body s) = None"
  shows "downloads (downloadCurrentChat s) = downloads s
       \<and> alerts (downloadCurrentChat s) = alerts s @ [''Chat container not found'']"
  using assms
  by (simp add: downloadCurrentChat_def Let_def body_def console_log_def console_error_def alert_def)

lemma downloadCurrentChat_empty:
  assumes "getElementById ''chatlines'' (body s) = Some e" and "querySelectorAll_div_line e = []"
  shows "downloads (downloadCurrentChat s) = downloads s
       \<and> alerts (downloadCurrentChat s) = alerts s @ [''No chat messages found'']"
  using assms
  by (simp add: downloadCurrentChat_def Let_def body_def console_log_def alert_def)

lemma downloadCurrentChat_lines:
  assumes "getElementById ''chatlines'' (body s) = Some e" and "querySelectorAll_div_line e \<noteq> []"
  shows "downloads (downloadCurrentChat s) = downloads s @
           [\<lparr>filename = ''game-chat-'' @
                filestamp_of (clock s (ticks s + length (querySelectorAll_div_line e))) @ ''.txt'',
             mime = ''text/plain'',
             content = join newline
               (chatLines_forEach (clock s) (ticks s) (querySelectorAll_div_line e))\<rparr>]"
  using assms
  by (simp add: downloadCurrentChat_def Let_def body_def console_log_def downloadTextFile_def
      length_chatLines_forEach chatLines_forEach_Nil)

lemma downloadLog_fallback:
  assumes "readAll s = []"
  shows "downloads (downloadLog s) = downloads (downloadCurrentChat s)
       \<and> alerts (downloadLog s) = alerts (downloadCurrentChat s)"
  using assms
  by (simp add: downloadLog_def readAll_def Let_def downloadCurrentChat_def body_def
      console_log_def console_error_def alert_def downloadTextFile_def split: option.splits)

lemma downloadLog_content:
  assumes "readAll s \<noteq> []"
  shows "content (last (downloads (downloadLog s))) = join newline (map formatEntry (readAll s))"
  using downloadLog_primary [OF assms] by simp

lemma records_Nil: "(records clk k ms = []) = (ms = [])"
  by (cases ms) auto

lemma length_neq: "length xs \<noteq> length ys \<Longrightarrow> xs \<noteq> ys"
  by auto

subsection \<open>The fields that the functions leave alone\<close>

lemma readAll_fresh: "readAll (fresh f page) = []"
  by (simp add: fresh_def readAll_def querySelectorAll_div_def descendants_def)

lemma fresh_fields:
  "logContainer (fresh f page) = []" "alerts (fresh f page) = []" "downloads (fresh f page) = []"
  "document (fresh f page) = page" "ticks (fresh f page) = 0"
  "UI_addChatLine (fresh f page) = Some (HostFn f)" "host (fresh f page) = 0"
  "clock (fresh f page) k = date0\<lparr>second := (4 + k) mod 60\<rparr>"
  by (simp_all add: fresh_def)

lemma readAll_console_log [simp]: "readAll (console_log m s) = readAll s"
  by (simp add: readAll_def)

lemma body_console_log [simp]: "body (console_log m s) = body s"
  by (simp add: body_def console_log_def)

lemma downloads_console_log [simp]: "downloads (console_log m s) = downloads s"
  by (simp add: console_log_def)

lemma alerts_console_log [simp]: "alerts (console_log m s) = alerts s"
  by (simp add: console_log_def)

lemma clock_console_log [simp]: "clock (console_log m s) = clock s"
  by (simp add: console_log_def)

lemma ticks_console_log [simp]: "ticks (console_log m s) = ticks s"
  by (simp add: console_log_def)

lemma readAll_host_update: "readAll (s\<lparr>document := doc, host := h\<rparr>) = readAll s"
  by (simp add: readAll_def)

lemma hookChatSystem_installs:
  "UI_addChatLine s = Some orig \<Longrightarrow> UI_addChatLine (hookChatSystem s) = Some (Hooked orig)"
  by (simp add: hookChatSystem_def console_log_def)

lemma hookChatSystem_fields:
  "readAll (hookChatSystem s) = readAll s" "clock (hookChatSystem s) = clock s"
  "ticks (hookChatSystem s) = ticks s" "document (hookChatSystem s) = document s"
  "host (hookChatSystem s) = host s"
  by (simp_all add: hookChatSystem_def readAll_def console_log_def console_error_def
      split: option.splits)

lemma init_installs:
  "UI_addChatLine s = Some orig \<Longrightarrow> UI_addChatLine (init s) = Some (Hooked orig)"
  by (simp add: init_def Let_def hookChatSystem_def console_log_def)

lemma init_fields:
  "readAll (init s) = []" "clock (init s) = clock s" "ticks (init s) = ticks s"
  "document (init s) = document s" "host (init s) = host s"
  by (simp_all add: init_def Let_def hookChatSystem_def readAll_def console_log_def
      console_error_def querySelectorAll_div_def descendants_def split: option.splits)

lemma call_Hooked:
  "call orig BoundUI p t c s = (r, s') \<Longrightarrow>
   call (Hooked orig) this p t c s =
     (case r of
        Return v \<Rightarrow> logMessage_call p t c s'
      | Throw e \<Rightarrow> (Throw e, s')
      | ThrowTypeError \<Rightarrow> (ThrowTypeError, s'))"
  by (simp add: logMessage_call_cases split: outcome.splits)

lemma logMessage_call_fields:
  "document (snd (logMessage_call p t c s)) = document s"
  "host (snd (logMessage_call p t c s)) = host s"
  "console (snd (logMessage_call p t c s)) = console s"
  "alerts (snd (logMessage_call p t c s)) = alerts s"
  "downloads (snd (logMessage_call p t c s)) = downloads s"
  by (simp_all add: logMessage_call_def logMessage_def)

lemma logMessage_fields:
  "document (logMessage p t c s) = document s" "host (logMessage p t c s) = host s"
  "console (logMessage p t c s) = console s" "alerts (logMessage p t c s) = alerts s"
  "downloads (logMessage p t c s) = downloads s"
  "UI_addChatLine (logMessage p t c s) = UI_addChatLine s"
  by (simp_all add: logMessage_def)

subsection \<open>The example host, evaluated\<close>

lemma no_window: "getElementById ''chatlines'' (body (fresh f [])) = None"
  by (simp add: body_def fresh_def container_def getElementById_def descendants_def)

lemma window_found:
  "getElementById ''chatlines'' (body (fresh f empty_window)) = Some (Element ''div'' [(''id'', ''chatlines'')] [])"
  by (simp add: body_def fresh_def container_def getElementById_def descendants_def empty_window_def)

lemma no_lines: "querySelectorAll_div_line (Element ''div'' [(''id'', ''chatlines'')] []) = []"
  by (simp add: querySelectorAll_div_line_def descendants_def)

lemma window_with_line:
  "getElementById ''chatlines'' (body (fresh f chat_window)) = Some (hd chat_window)"
  by (simp add: body_def fresh_fields container_def getElementById_def descendants_def chat_window_def)

lemma lines_of_window:
  "querySelectorAll_div_line (hd chat_window) =
     [Element ''div'' [(''class'', ''line own'')]
           [Element ''span'' [(''class'', ''nick'')] [Text ''Alice''],
            Element ''span'' [(''class'', ''text'')] [Text ''hi'']]]"
  by (simp add: querySelectorAll_div_line_def descendants_def chat_window_def has_class_def is_space_def)

lemma pads: "pad 4 2024 = ''2024''" "pad 2 (Suc 0) = ''01''" "pad 2 2 = ''02''" "pad 2 3 = ''03''"
  "pad 2 4 = ''04''" "pad 2 5 = ''05''"
  by (simp_all add: pad_def digits.simps digit_char_def)

lemma filestamp_scenario:
  "filestamp_of \<lparr>year = 2024, month = Suc 0, day = 2, hour = 3, minute = 4, second = 5,
      millisecond = ms\<rparr> = ''2024-01-02T03-04-05''"
  by (simp add: filestamp_of_def toISOString_def pads slice0_def replace_all_def)

lemma timestamp_scenario:
  "timestamp_of \<lparr>year = 2024, month = Suc 0, day = 2, hour = 3, minute = 4, second = 4,
      millisecond = ms\<rparr> = ''2024-01-02 03:04:04''"
  "timestamp_of \<lparr>year = 2024, month = Suc 0, day = 2, hour = 3, minute = 4, second = 5,
      millisecond = ms\<rparr> = ''2024-01-02 03:04:05''"
  by (simp_all add: timestamp_of_def toISOString_def pads slice0_def)

lemma alice_prints:
  "\<not> logMessage_throws alice (JStr ''hi'')" "safe_integer (JStr ''hi'')"
  "safe_integer (get_name alice)" "logMessage_throws alice unprintable"
  by (simp_all add: logMessage_throws_def safe_integer_def alice_def unprintable_def)

lemma names: "playerName alice = ''Alice''" "playerName bob = ''Bob''"
  by (simp_all add: playerName_def alice_def bob_def)

lemma readAll_one_logged:
  "readAll one_logged = [logEntry (date0\<lparr>second := 4\<rparr>) alice (JStr ''hi'') (JNum 0)]"
  by (simp add: one_logged_def readAll_logMessage readAll_fresh fresh_fields)

lemma clock_one_logged:
  "clock one_logged (ticks one_logged) =
     \<lparr>year = 2024, month = 1, day = 2, hour = 3, minute = 4, second = 5, millisecond = 678\<rparr>"
  by (simp add: one_logged_def clock_logMessage ticks_logMessage fresh_fields date0_def)

lemma downloads_one_logged: "downloads one_logged = []"
  by (simp add: one_logged_def logMessage_def fresh_fields)

lemma format_one_logged:
  "formatEntry (logEntry (date0\<lparr>second := 4\<rparr>) alice (JStr ''hi'') (JNum 0))
     = ''[2024-01-02 03:04:04] Alice: hi''"
  by (simp add: formatEntry_logEntry render_def typeText_def names date0_def timestamp_scenario)

lemma filestamp_fresh:
  "filestamp_of (clock (fresh f page) (Suc 0)) = ''2024-01-02T03-04-05''"
  "filestamp_of (clock one_logged (ticks one_logged)) = ''2024-01-02T03-04-05''"
  by (simp_all add: fresh_fields date0_def filestamp_scenario one_logged_def clock_logMessage
      ticks_logMessage)

section \<open>The properties of the specification\<close>

text \<open>
  C1, as the code has it. \<^verbatim>\<open>hookChatSystem\<close> puts the arrow function over the original in
  \<^verbatim>\<open>UI.addChatLine\<close>. Whatever its own binding, the arrow function first calls the
  original with \<^verbatim>\<open>UI\<close> as \<^verbatim>\<open>this\<close> and the same three arguments, in the state it
  was called in. When the original throws, that is the whole call: the same exception and
  the state as the original left it, the log and the clock too. When the original
  returns, its value is dropped and \<^verbatim>\<open>logMessage\<close> runs on the state that the original
  left: the call returns \<^verbatim>\<open>undefined\<close>, or throws the TypeError of a text or a name
  that has no string form. In every case the page, the host's private state, the
  console, the alerts and the downloads end as the original leaves them.
\<close>

theorem hooked_function_calls_original:
  assumes "UI_addChatLine s = Some orig"
  shows "UI_addChatLine (hookChatSystem s) = Some (Hooked orig)
    \<and> call (Hooked orig) this player text chatType s1 =
        (case call orig BoundUI player text chatType s1 of
           (Return v, s2) \<Rightarrow>
             if logMessage_throws player text
             then (ThrowTypeError, s2\<lparr>ticks := Suc (ticks s2)\<rparr>)
             else (Return JUndefined, logMessage player text chatType s2)
         | (Throw e, s2) \<Rightarrow> (Throw e, s2)
         | (ThrowTypeError, s2) \<Rightarrow> (ThrowTypeError, s2))
    \<and> document (snd (call (Hooked orig) this player text chatType s1)) =
        document (snd (call orig BoundUI player text chatType s1))
    \<and> host (snd (call (Hooked orig) this player text chatType s1)) =
        host (snd (call orig BoundUI player text chatType s1))
    \<and> console (snd (call (Hooked orig) this player text chatType s1)) =
        console (snd (call orig BoundUI player text chatType s1))
    \<and> alerts (snd (call (Hooked orig) this player text chatType s1)) =
        alerts (snd (call orig BoundUI player text chatType s1))
    \<and> downloads (snd (call (Hooked orig) this player text chatType s1)) =
        downloads (snd (call orig BoundUI player text chatType s1))
    \<and> (orig = HostFn f \<longrightarrow>
        document (snd (call (Hooked orig) this player text chatType s1)) =
          fst (snd (f BoundUI player text chatType (document s1, host s1)))
        \<and> host (snd (call (Hooked orig) this player text chatType s1)) =
          snd (snd (f BoundUI player text chatType (document s1, host s1))))"
proof -
  obtain r s2 where c: "call orig BoundUI player text chatType s1 = (r, s2)"
    by (cases "call orig BoundUI player text chatType s1")
  have w: "call (Hooked orig) this player text chatType s1 =
     (case r of
        Return v \<Rightarrow> logMessage_call player text chatType s2
      | Throw e \<Rightarrow> (Throw e, s2)
      | ThrowTypeError \<Rightarrow> (ThrowTypeError, s2))"
    using c by (rule call_Hooked)
  have whole: "call (Hooked orig) this player text chatType s1 =
        (case (r, s2) of
           (Return v, s2) \<Rightarrow>
             if logMessage_throws player text
             then (ThrowTypeError, s2\<lparr>ticks := Suc (ticks s2)\<rparr>)
             else (Return JUndefined, logMessage player text chatType s2)
         | (Throw e, s2) \<Rightarrow> (Throw e, s2)
         | (ThrowTypeError, s2) \<Rightarrow> (ThrowTypeError, s2))"
    by (cases r) (simp_all add: w logMessage_call_def del: call.simps)
  have host_level: "document s2 = fst (snd (f BoundUI player text chatType (document s1, host s1)))
      \<and> host s2 = snd (snd (f BoundUI player text chatType (document s1, host s1)))"
    if "orig = HostFn f"
    using c that by (auto split: prod.splits)
  have eqs: "document (snd (call (Hooked orig) this player text chatType s1)) = document s2"
    "host (snd (call (Hooked orig) this player text chatType s1)) = host s2"
    "console (snd (call (Hooked orig) this player text chatType s1)) = console s2"
    "alerts (snd (call (Hooked orig) this player text chatType s1)) = alerts s2"
    "downloads (snd (call (Hooked orig) this player text chatType s1)) = downloads s2"
    by (cases r; simp add: w logMessage_call_fields del: call.simps)+
  have fields:
    "document (snd (call (Hooked orig) this player text chatType s1)) =
        document (snd (call orig BoundUI player text chatType s1))"
    "host (snd (call (Hooked orig) this player text chatType s1)) =
        host (snd (call orig BoundUI player text chatType s1))"
    "console (snd (call (Hooked orig) this player text chatType s1)) =
        console (snd (call orig BoundUI player text chatType s1))"
    "alerts (snd (call (Hooked orig) this player text chatType s1)) =
        alerts (snd (call orig BoundUI player text chatType s1))"
    "downloads (snd (call (Hooked orig) this player text chatType s1)) =
        downloads (snd (call orig BoundUI player text chatType s1))"
    by (simp_all only: eqs c snd_conv)
  have then_logs: "call (Hooked orig) this player text chatType s1 =
        (case call orig BoundUI player text chatType s1 of
           (Return v, s2) \<Rightarrow>
             if logMessage_throws player text
             then (ThrowTypeError, s2\<lparr>ticks := Suc (ticks s2)\<rparr>)
             else (Return JUndefined, logMessage player text chatType s2)
         | (Throw e, s2) \<Rightarrow> (Throw e, s2)
         | (ThrowTypeError, s2) \<Rightarrow> (ThrowTypeError, s2))"
    unfolding c by (rule whole)
  have host_fn: "orig = HostFn f \<longrightarrow>
        document (snd (call (Hooked orig) this player text chatType s1)) =
          fst (snd (f BoundUI player text chatType (document s1, host s1)))
        \<and> host (snd (call (Hooked orig) this player text chatType s1)) =
          snd (snd (f BoundUI player text chatType (document s1, host s1)))"
  proof
    assume "orig = HostFn f"
    from host_level [OF this] show "document (snd (call (Hooked orig) this player text chatType s1)) =
          fst (snd (f BoundUI player text chatType (document s1, host s1)))
        \<and> host (snd (call (Hooked orig) this player text chatType s1)) =
          snd (snd (f BoundUI player text chatType (document s1, host s1)))"
      by (simp only: eqs)
  qed
  have installed: "UI_addChatLine (hookChatSystem s) = Some (Hooked orig)"
    using assms by (rule hookChatSystem_installs)
  show ?thesis
    by (intro conjI) (fact installed then_logs fields host_fn)+
qed

theorem hooked_function_calls_original_witness:
  "UI_addChatLine (hookChatSystem (fresh host_addChatLine chat_window))
     = Some (Hooked (HostFn host_addChatLine))
   \<and> fst (call (Hooked (HostFn host_addChatLine)) BoundOther alice (JStr ''hi'') (JNum 0)
        (fresh host_addChatLine chat_window)) = Return JUndefined
   \<and> host (snd (call (Hooked (HostFn host_addChatLine)) BoundOther alice (JStr ''hi'') (JNum 0)
        (fresh host_addChatLine chat_window))) = 1
   \<and> document (snd (call (Hooked (HostFn host_addChatLine)) BoundOther alice (JStr ''hi'') (JNum 0)
        (fresh host_addChatLine chat_window)))
      = chat_window @ [Element ''div'' [(''class'', ''line'')] [Text ''hi'']]"
proof -
  let ?s = "fresh host_addChatLine chat_window"
  have "UI_addChatLine ?s = Some (HostFn host_addChatLine)"
    by (simp add: fresh_fields)
  from hooked_function_calls_original [OF this, of BoundOther alice "JStr ''hi''" "JNum 0" ?s
      host_addChatLine]
  show ?thesis
    by (simp add: host_addChatLine_def fresh_fields alice_prints logMessage_call_cases
        logMessage_call_def logMessage_fields)
qed

text \<open>
  C1 as it is stated fails in what the call returns and in the binding. An original that
  returns \<^verbatim>\<open>true\<close> gives \<^verbatim>\<open>undefined\<close> through the hooked function. Called with a
  binding other than \<^verbatim>\<open>UI\<close>, the hooked function still binds the original to
  \<^verbatim>\<open>UI\<close>: an original that notes its binding notes 2 when called so itself and 1
  through the hooked function. And with a text that has no string form, an original that
  returns gives a TypeError through the hooked function.
\<close>

theorem hooked_call_counterexample:
  "UI_addChatLine (init (fresh host_addChatLine chat_window))
     = Some (Hooked (HostFn host_addChatLine))
   \<and> fst (call (HostFn host_addChatLine) BoundUI alice (JStr ''hi'') (JNum 0)
        (init (fresh host_addChatLine chat_window))) = Return (JBool True)
   \<and> fst (call (Hooked (HostFn host_addChatLine)) BoundUI alice (JStr ''hi'') (JNum 0)
        (init (fresh host_addChatLine chat_window))) = Return JUndefined
   \<and> host (snd (call (HostFn host_bound) BoundOther alice (JStr ''hi'') (JNum 0)
        (init (fresh host_bound chat_window)))) = 2
   \<and> host (snd (call (Hooked (HostFn host_bound)) BoundOther alice (JStr ''hi'') (JNum 0)
        (init (fresh host_bound chat_window)))) = 1
   \<and> fst (call (HostFn host_bound) BoundUI alice unprintable (JNum 0)
        (init (fresh host_bound chat_window))) = Return JUndefined
   \<and> fst (call (Hooked (HostFn host_bound)) BoundUI alice unprintable (JNum 0)
        (init (fresh host_bound chat_window))) = ThrowTypeError"
  by (simp add: init_installs fresh_fields host_addChatLine_def host_bound_def
      logMessage_call_cases logMessage_call_def alice_prints init_fields logMessage_fields)

text \<open>
  C2, as the code has it. The sender of a record is what \<^verbatim>\<open>logMessage\<close> stores in
  \<^verbatim>\<open>data-player\<close>: the string form of the player's \<^verbatim>\<open>name\<close> property when the
  player is an object that has one (the name itself when it is a string), the literal
  Unknown when the player is absent, \<^verbatim>\<open>null\<close> or falsy in another way, and the word
  undefined when the player is present but has no \<^verbatim>\<open>name\<close>: the guard of the source
  looks at the player only, not at the name.
\<close>

theorem sender_of_record:
  "getAttribute ''data-player'' (last (readAll (logMessage player text chatType s)))
     = Some (playerName player)
   \<and> (map_of ps ''name'' = Some v \<longrightarrow> playerName (JObj ps) = ToString v)
   \<and> (map_of ps ''name'' = Some (JStr n) \<longrightarrow> playerName (JObj ps) = n)
   \<and> playerName JUndefined = ''Unknown''
   \<and> playerName JNull = ''Unknown''
   \<and> (\<not> truthy player \<longrightarrow> playerName player = ''Unknown'')
   \<and> (map_of ps ''name'' = None \<longrightarrow> playerName (JObj ps) = ''undefined'')
   \<and> (truthy player \<and> (\<forall>qs. player \<noteq> JObj qs) \<longrightarrow> playerName player = ''undefined'')"
  by (cases player) (simp_all add: playerName_def readAll_logMessage logEntry_eq)

theorem sender_of_record_witness:
  "getAttribute ''data-player''
     (last (readAll (logMessage alice (JStr ''hi'') (JNum 0) (fresh host_addChatLine chat_window))))
     = Some ''Alice''
   \<and> getAttribute ''data-player''
     (last (readAll (logMessage JNull (JStr ''hi'') (JNum 0) (fresh host_addChatLine chat_window))))
     = Some ''Unknown''
   \<and> playerName (JObj [(''id'', JNum 7)]) = ''undefined''
   \<and> playerName (JNum 5) = ''undefined''"
  using sender_of_record [of alice "JStr ''hi''" "JNum 0" "fresh host_addChatLine chat_window"
      "[(''id'', JNum 7), (''name'', JStr ''Alice'')]" "JStr ''Alice''" "''Alice''"]
    sender_of_record [of JNull "JStr ''hi''" "JNum 0" "fresh host_addChatLine chat_window"
      "[(''id'', JNum 7)]" JNull "''x''"]
    sender_of_record [of "JNum 5" "JStr ''hi''" "JNum 0" "fresh host_addChatLine chat_window"
      "[(''id'', JNum 7)]" JNull "''x''"]
  by (simp add: alice_def)

text \<open>
  C2 as it is stated fails for a player object without a name: the sender is then the
  word undefined, not Unknown.
\<close>

theorem sender_without_name_counterexample:
  "getAttribute ''data-player''
     (last (readAll (logMessage (JObj [(''id'', JNum 7)]) (JStr ''hi'') (JNum 0)
        (fresh host_addChatLine chat_window))))
     = Some ''undefined''
   \<and> getAttribute ''data-player''
     (last (readAll (logMessage (JObj [(''id'', JNum 7)]) (JStr ''hi'') (JNum 0)
        (fresh host_addChatLine chat_window))))
     \<noteq> Some ''Unknown''"
  by (simp add: readAll_logMessage logEntry_eq playerName_def)

text \<open>
  C3, as the code has it. With the arrow function installed once over a function of the
  host, a call of \<^verbatim>\<open>UI.addChatLine\<close> appends exactly one record at the end of the log
  when the original returns and the text and the player's name have a string form; the
  record is that of this message (its text and name printed as the model prints them,
  which is JavaScript's way for the safe integers). When the original throws, the
  exception leaves the arrow function before \<^verbatim>\<open>logMessage\<close>; when \<^verbatim>\<open>setAttribute\<close>
  throws the TypeError, \<^verbatim>\<open>appendChild\<close> is not reached: in both cases no record is
  appended. The records of before are kept in every case.
\<close>

theorem one_record_per_emission:
  assumes "UI_addChatLine s = Some (Hooked (HostFn f))"
  shows "length (readAll (perform (OpAddChatLine this player text chatType) s)) =
           (case fst (f BoundUI player text chatType (document s, host s)) of
              Return v \<Rightarrow>
                if logMessage_throws player text then length (readAll s)
                else Suc (length (readAll s))
            | Throw e \<Rightarrow> length (readAll s)
            | ThrowTypeError \<Rightarrow> length (readAll s))
       \<and> prefix (readAll s) (readAll (perform (OpAddChatLine this player text chatType) s))
       \<and> (safe_integer text \<and> safe_integer (get_name player) \<longrightarrow>
           readAll (perform (OpAddChatLine this player text chatType) s) =
             (case fst (f BoundUI player text chatType (document s, host s)) of
                Return v \<Rightarrow>
                  if logMessage_throws player text then readAll s
                  else readAll s @ [logEntry (clock s (ticks s)) player text chatType]
              | Throw e \<Rightarrow> readAll s
              | ThrowTypeError \<Rightarrow> readAll s))"
proof -
  obtain r doc h where f: "f BoundUI player text chatType (document s, host s) = (r, doc, h)"
    by (cases "f BoundUI player text chatType (document s, host s)")
  let ?s2 = "s\<lparr>document := doc, host := h\<rparr>"
  have same: "readAll ?s2 = readAll s" "clock ?s2 = clock s" "ticks ?s2 = ticks s"
    by (simp_all add: readAll_def)
  have after: "readAll (perform (OpAddChatLine this player text chatType) s) =
             (case r of
                Return v \<Rightarrow>
                  if logMessage_throws player text then readAll s
                  else readAll s @ [logEntry (clock s (ticks s)) player text chatType]
              | Throw e \<Rightarrow> readAll s
              | ThrowTypeError \<Rightarrow> readAll s)"
    using assms f
    by (cases r) (simp_all add: logMessage_call_cases readAll_logMessage_call same)
  have "length (readAll (perform (OpAddChatLine this player text chatType) s)) =
           (case r of
              Return v \<Rightarrow>
                if logMessage_throws player text then length (readAll s)
                else Suc (length (readAll s))
            | Throw e \<Rightarrow> length (readAll s)
            | ThrowTypeError \<Rightarrow> length (readAll s))"
    by (cases r) (simp_all add: after del: perform.simps)
  moreover have "prefix (readAll s) (readAll (perform (OpAddChatLine this player text chatType) s))"
    by (cases r) (simp_all add: after del: perform.simps)
  ultimately show ?thesis
    using after by (simp add: f del: perform.simps)
qed

theorem one_record_per_emission_witness:
  "length (readAll (perform (OpAddChatLine BoundUI alice (JStr ''hi'') (JNum 0))
      (init (fresh host_addChatLine chat_window)))) = 1
   \<and> getAttribute ''data-text'' (last (readAll (perform (OpAddChatLine BoundUI alice (JStr ''hi'') (JNum 0))
      (init (fresh host_addChatLine chat_window))))) = Some ''hi''"
proof -
  let ?s = "init (fresh host_addChatLine chat_window)"
  have "UI_addChatLine ?s = Some (Hooked (HostFn host_addChatLine))"
    by (simp add: init_installs fresh_fields)
  from one_record_per_emission [OF this, of BoundUI alice "JStr ''hi''" "JNum 0"]
  show ?thesis
    by (simp add: host_addChatLine_def init_fields fresh_fields logEntry_eq alice_prints)
qed

text \<open>
  C3 as it is stated fails for an original that throws: after the call the log holds
  what it held before, no record. It fails as well for a text that has no string form:
  the original returns, and no record is appended.
\<close>

theorem throwing_host_counterexample:
  "UI_addChatLine (init (fresh host_failing chat_window)) = Some (Hooked (HostFn host_failing))
   \<and> fst (call (Hooked (HostFn host_failing)) BoundUI alice (JStr ''hi'') (JNum 0)
        (init (fresh host_failing chat_window))) = Throw (JStr ''no chat window'')
   \<and> readAll (perform (OpAddChatLine BoundUI alice (JStr ''hi'') (JNum 0))
        (init (fresh host_failing chat_window)))
     = readAll (init (fresh host_failing chat_window))
   \<and> length (readAll (perform (OpAddChatLine BoundUI alice (JStr ''hi'') (JNum 0))
        (init (fresh host_failing chat_window)))) = 0
   \<and> fst (call (HostFn host_bound) BoundUI alice unprintable (JNum 0)
        (init (fresh host_bound chat_window))) = Return JUndefined
   \<and> length (readAll (perform (OpAddChatLine BoundUI alice unprintable (JNum 0))
        (init (fresh host_bound chat_window)))) = 0"
  by (simp add: init_installs fresh_fields host_failing_def host_bound_def init_fields
      readAll_host_update logMessage_call_cases readAll_logMessage_call alice_prints)

text \<open>
  C4: after \<open>N\<close> messages are logged, the log read back as \<^verbatim>\<open>downloadLog\<close> reads it
  is the log of before followed by the \<open>N\<close> records in the order of the messages, so
  exactly \<open>N\<close> records when it was empty. No operation but a full clear changes or
  removes a record: after any other operation, and after any sequence of them, the log
  of before is a prefix of the log. (\<^verbatim>\<open>init\<close>, which creates the log, is not among the
  operations.)
\<close>

theorem append_order:
  "readAll (logMessages ms s) = readAll s @ records (clock s) (ticks s) ms
   \<and> length (readAll (logMessages ms s)) = length (readAll s) + length ms
   \<and> (readAll s = [] \<longrightarrow> readAll (logMessages ms s) = records (clock s) (ticks s) ms
        \<and> length (readAll (logMessages ms s)) = length ms)
   \<and> (\<not> is_clear op \<longrightarrow> prefix (readAll s) (readAll (perform op s)))
   \<and> (list_all (\<lambda>op. \<not> is_clear op) ops \<longrightarrow> prefix (readAll s) (readAll (run ops s)))"
  by (simp add: readAll_logMessages length_records perform_keeps_records run_keeps_records)

theorem append_order_witness:
  "length (readAll (logMessages [(alice, JStr ''hi'', JNum 0), (bob, JStr ''hey'', JNum 3)]
      (fresh host_addChatLine chat_window))) = 2
   \<and> prefix (readAll (logMessage alice (JStr ''hi'') (JNum 0) (fresh host_addChatLine chat_window)))
       (readAll (perform OpDownloadLog
          (logMessage alice (JStr ''hi'') (JNum 0) (fresh host_addChatLine chat_window))))
   \<and> prefix (readAll (logMessage alice (JStr ''hi'') (JNum 0) (fresh host_addChatLine chat_window)))
       (readAll (run [OpAddChatLine BoundUI bob (JStr ''hey'') (JNum 3), OpClick DownloadChat,
                      OpHookChatSystem]
          (logMessage alice (JStr ''hi'') (JNum 0) (fresh host_addChatLine chat_window))))"
  using append_order [of "[(alice, JStr ''hi'', JNum 0), (bob, JStr ''hey'', JNum 3)]"
      "fresh host_addChatLine chat_window" OpDownloadLog "[]"]
    append_order [of "[]" "logMessage alice (JStr ''hi'') (JNum 0) (fresh host_addChatLine chat_window)"
      OpDownloadLog
      "[OpAddChatLine BoundUI bob (JStr ''hey'') (JNum 3), OpClick DownloadChat, OpHookChatSystem]"]
  by (simp add: readAll_fresh)

text \<open>
  C5: the text that \<^verbatim>\<open>downloadLog\<close> hands over is the lines of the records in the order
  of the log, joined by one newline: the first line, then every further line after a
  newline, and nothing after the last. The line of a record is
  \<open>[timestamp] [category] sender: text\<close> when its category has a label and
  \<open>[timestamp] sender: text\<close> when it is NONE, as \<open>render\<close> words it. Logging Alice's
  hi with chat type 0 at \<open>t1\<close> and Bob's hey with chat type 3 at \<open>t2\<close> into an empty log
  gives \<open>[t1] Alice: hi\<close>, a newline and \<open>[t2] [TEAM] Bob: hey\<close>.
\<close>

theorem transcript_of_log:
  "(readAll s \<noteq> [] \<longrightarrow>
      content (last (downloads (downloadLog s))) = join newline (map formatEntry (readAll s)))
   \<and> formatEntry (logEntry d player text chatType) =
       render (timestamp_of d) (typeText chatType) (playerName player) (ToString text)
   \<and> (typeText chatType \<noteq> [] \<longrightarrow>
       formatEntry (logEntry d player text chatType) =
         ''['' @ timestamp_of d @ ''] ['' @ typeText chatType @ ''] '' @ playerName player
           @ '': '' @ ToString text)
   \<and> (typeText chatType = [] \<longrightarrow>
       formatEntry (logEntry d player text chatType) =
         ''['' @ timestamp_of d @ ''] '' @ playerName player @ '': '' @ ToString text)
   \<and> join newline (l # ls) = l @ concat (map (\<lambda>x. newline @ x) ls)
   \<and> (readAll s = [] \<and> ms \<noteq> [] \<longrightarrow>
       content (last (downloads (downloadLog (logMessages ms s)))) =
         join newline (transcript (clock s) (ticks s) ms))
   \<and> (readAll s = [] \<longrightarrow>
       content (last (downloads (downloadLog
         (logMessages [(JObj [(''name'', JStr ''Alice'')], JStr ''hi'', JNum 0),
                       (JObj [(''name'', JStr ''Bob'')], JStr ''hey'', JNum 3)] s)))) =
         ''['' @ timestamp_of (clock s (ticks s)) @ ''] Alice: hi'' @ newline @
         ''['' @ timestamp_of (clock s (Suc (ticks s))) @ ''] [TEAM] Bob: hey'')"
proof -
  have gen: "content (last (downloads (downloadLog (logMessages ms s)))) =
         join newline (transcript (clock s) (ticks s) ms)"
    if "readAll s = []" and "ms \<noteq> []" for ms
  proof -
    have "readAll (logMessages ms s) = records (clock s) (ticks s) ms"
      using that(1) by (simp add: readAll_logMessages)
    moreover from this have "readAll (logMessages ms s) \<noteq> []"
      using that(2) by (simp add: records_Nil)
    ultimately show ?thesis
      by (simp add: downloadLog_content map_formatEntry_records)
  qed
  have ex: "content (last (downloads (downloadLog
         (logMessages [(JObj [(''name'', JStr ''Alice'')], JStr ''hi'', JNum 0),
                       (JObj [(''name'', JStr ''Bob'')], JStr ''hey'', JNum 3)] s)))) =
         ''['' @ timestamp_of (clock s (ticks s)) @ ''] Alice: hi'' @ newline @
         ''['' @ timestamp_of (clock s (Suc (ticks s))) @ ''] [TEAM] Bob: hey''"
    if "readAll s = []"
    using gen [OF that, of "[(JObj [(''name'', JStr ''Alice'')], JStr ''hi'', JNum 0),
                       (JObj [(''name'', JStr ''Bob'')], JStr ''hey'', JNum 3)]"]
    by (simp add: render_def typeText_def playerName_def)
  show ?thesis
    using gen ex
    by (simp add: downloadLog_content formatEntry_logEntry render_def join_cons)
qed

theorem transcript_of_log_witness:
  "content (last (downloads (downloadLog (logMessages two_messages (fresh host_addChatLine chat_window)))))
     = ''[2024-01-02 03:04:04] Alice: hi'' @ [CHR 0x0A] @ ''[2024-01-02 03:04:05] [TEAM] Bob: hey''"
proof -
  let ?s = "fresh host_addChatLine chat_window"
  have "readAll ?s = [] \<and> two_messages \<noteq> []"
    by (simp add: readAll_fresh two_messages_def)
  with transcript_of_log [of ?s date0 alice "JStr ''hi''" "JNum 0" "[]" "[]" two_messages]
  have "content (last (downloads (downloadLog (logMessages two_messages ?s)))) =
         join newline (transcript (clock ?s) (ticks ?s) two_messages)"
    by blast
  then show ?thesis
    by (simp add: two_messages_def fresh_fields render_def typeText_def names date0_def
        timestamp_scenario newline_def)
qed

text \<open>
  C6: the category of a record is a function of the chat type alone. The codes 1, 2 and 3
  give WHISPER_TO, WHISPER_FROM and TEAM; every other value, \<^verbatim>\<open>undefined\<close> for an absent
  argument among them, gives the empty label, which is the category NONE; and the label is
  what the new record holds in \<^verbatim>\<open>data-type\<close>.
\<close>

theorem category_of_chat_type:
  "typeText (JNum 1) = ''WHISPER_TO''
   \<and> typeText (JNum 2) = ''WHISPER_FROM''
   \<and> typeText (JNum 3) = ''TEAM''
   \<and> (chatType \<notin> {JNum 1, JNum 2, JNum 3} \<longrightarrow> typeText chatType = [])
   \<and> getAttribute ''data-type'' (last (readAll (logMessage player text chatType s)))
       = Some (typeText chatType)"
  by (simp add: typeText_def readAll_logMessage logEntry_eq)

theorem category_of_chat_type_witness:
  "typeText JUndefined = [] \<and> typeText (JNum 0) = [] \<and> typeText (JStr ''1'') = []
   \<and> getAttribute ''data-type''
        (last (readAll (logMessage alice (JStr ''hey'') (JNum 3) (fresh host_addChatLine chat_window))))
       = Some ''TEAM''"
  using category_of_chat_type [of JUndefined alice "JStr ''hey''" "fresh host_addChatLine chat_window"]
    category_of_chat_type [of "JNum 0" alice "JStr ''hey''" "fresh host_addChatLine chat_window"]
    category_of_chat_type [of "JStr ''1''" alice "JStr ''hey''" "fresh host_addChatLine chat_window"]
    category_of_chat_type [of "JNum 3" alice "JStr ''hey''" "fresh host_addChatLine chat_window"]
  by simp

text \<open>
  C7: when the log is empty and the page has no chat container, or has one without any
  chat line, an export (called or clicked) shows one alert, hands no file to the browser
  and leaves the log container as it was.
\<close>

theorem empty_export_gives_notice:
  assumes "readAll s = []"
    and "getElementById ''chatlines'' (body s) = None
         \<or> (\<exists>e. getElementById ''chatlines'' (body s) = Some e \<and> querySelectorAll_div_line e = [])"
  shows "alerts (downloadLog s) = alerts s @
           [if getElementById ''chatlines'' (body s) = None then ''Chat container not found''
            else ''No chat messages found'']
       \<and> downloads (downloadLog s) = downloads s
       \<and> logContainer (downloadLog s) = logContainer s
       \<and> alerts (click DownloadChat s) = alerts (downloadLog s)
       \<and> downloads (click DownloadChat s) = downloads s
       \<and> logContainer (click DownloadChat s) = logContainer s"
proof -
  let ?s' = "console_log ''Download chat button clicked'' s"
  have both: "alerts (downloadLog t) = alerts t @
           [if getElementById ''chatlines'' (body t) = None then ''Chat container not found''
            else ''No chat messages found'']
       \<and> downloads (downloadLog t) = downloads t"
    if e: "readAll t = []"
      and f: "getElementById ''chatlines'' (body t) = None
         \<or> (\<exists>e. getElementById ''chatlines'' (body t) = Some e \<and> querySelectorAll_div_line e = [])"
    for t :: "'a state"
    using f downloadLog_fallback [OF e] downloadCurrentChat_missing [of t]
      downloadCurrentChat_empty [of t]
    by auto
  have "readAll ?s' = []" using assms(1) by simp
  moreover have "getElementById ''chatlines'' (body ?s') = None
         \<or> (\<exists>e. getElementById ''chatlines'' (body ?s') = Some e \<and> querySelectorAll_div_line e = [])"
    using assms(2) by simp
  ultimately have "alerts (downloadLog ?s') = alerts ?s' @
           [if getElementById ''chatlines'' (body ?s') = None then ''Chat container not found''
            else ''No chat messages found'']
       \<and> downloads (downloadLog ?s') = downloads ?s'"
    by (rule both)
  then show ?thesis using both [OF assms] by (simp add: click_def)
qed

theorem empty_export_gives_notice_witness:
  "alerts (downloadLog (fresh host_addChatLine [])) = [''Chat container not found'']
   \<and> downloads (downloadLog (fresh host_addChatLine [])) = []
   \<and> logContainer (downloadLog (fresh host_addChatLine [])) = []
   \<and> alerts (downloadLog (fresh host_addChatLine empty_window)) = [''No chat messages found'']
   \<and> downloads (downloadLog (fresh host_addChatLine empty_window)) = []
   \<and> logContainer (downloadLog (fresh host_addChatLine empty_window)) = []"
proof -
  have a: "getElementById ''chatlines'' (body (fresh host_addChatLine [])) = None
      \<or> (\<exists>e. getElementById ''chatlines'' (body (fresh host_addChatLine [])) = Some e
            \<and> querySelectorAll_div_line e = [])"
    by (simp add: no_window)
  have b: "getElementById ''chatlines'' (body (fresh host_addChatLine empty_window)) = None
      \<or> (\<exists>e. getElementById ''chatlines'' (body (fresh host_addChatLine empty_window)) = Some e
            \<and> querySelectorAll_div_line e = [])"
    by (simp add: window_found no_lines)
  show ?thesis
    using empty_export_gives_notice [OF readAll_fresh a] empty_export_gives_notice [OF readAll_fresh b]
    by (simp add: no_window window_found fresh_fields)
qed

text \<open>
  C8: an export of a log that is not empty names its file by the prefix game-chat-log,
  a dash, the first 19 characters of the ISO time with every colon replaced by a dash,
  and .txt. When the clock reads 2024-01-02 03:04:05 (UTC, whatever the milliseconds),
  the name is game-chat-log-2024-01-02T03-04-05.txt.
\<close>

theorem export_file_name:
  "(readAll s \<noteq> [] \<longrightarrow>
      filename (last (downloads (downloadLog s))) =
        ''game-chat-log'' @ ''-'' @
        replace_all CHR '':'' CHR ''-'' (slice0 19 (toISOString (clock s (ticks s)))) @ ''.txt'')
   \<and> (readAll s \<noteq> [] \<and>
        clock s (ticks s) = \<lparr>year = 2024, month = 1, day = 2, hour = 3, minute = 4, second = 5,
          millisecond = ms\<rparr> \<longrightarrow>
      downloads (downloadLog s) = downloads s @
        [\<lparr>filename = ''game-chat-log-2024-01-02T03-04-05.txt'', mime = ''text/plain'',
          content = join newline (map formatEntry (readAll s))\<rparr>])"
proof -
  have "filename (last (downloads (downloadLog s))) =
        ''game-chat-log'' @ ''-'' @
        replace_all CHR '':'' CHR ''-'' (slice0 19 (toISOString (clock s (ticks s)))) @ ''.txt''"
    if "readAll s \<noteq> []"
    using downloadLog_primary [OF that] by (simp add: filestamp_of_def)
  moreover have "downloads (downloadLog s) = downloads s @
        [\<lparr>filename = ''game-chat-log-2024-01-02T03-04-05.txt'', mime = ''text/plain'',
          content = join newline (map formatEntry (readAll s))\<rparr>]"
    if "readAll s \<noteq> []" and "clock s (ticks s) = \<lparr>year = 2024, month = 1, day = 2, hour = 3,
          minute = 4, second = 5, millisecond = ms\<rparr>"
    using downloadLog_primary [OF that(1)] that(2) by (simp add: filestamp_scenario)
  ultimately show ?thesis by blast
qed

theorem export_file_name_witness:
  "downloads (downloadLog one_logged)
     = [\<lparr>filename = ''game-chat-log-2024-01-02T03-04-05.txt'', mime = ''text/plain'',
         content = ''[2024-01-02 03:04:04] Alice: hi''\<rparr>]"
proof -
  have "readAll one_logged \<noteq> [] \<and> clock one_logged (ticks one_logged) =
     \<lparr>year = 2024, month = 1, day = 2, hour = 3, minute = 4, second = 5, millisecond = 678\<rparr>"
    by (simp add: readAll_one_logged clock_one_logged)
  with export_file_name [of one_logged 678]
  have "downloads (downloadLog one_logged) = downloads one_logged @
        [\<lparr>filename = ''game-chat-log-2024-01-02T03-04-05.txt'', mime = ''text/plain'',
          content = join newline (map formatEntry (readAll one_logged))\<rparr>]"
    by blast
  then show ?thesis
    by (simp add: readAll_one_logged downloads_one_logged format_one_logged)
qed

text \<open>
  C9: whatever the log holds, \<^verbatim>\<open>clearLog\<close> leaves it empty. The log container is itself
  the rendered view of the log, so the view is emptied by the same assignment; and the
  user is told by an alert that the log was cleared. The same holds for a click on the
  menu item.
\<close>

theorem clear_empties_log:
  "readAll (clearLog s) = []
   \<and> logContainer (clearLog s) = []
   \<and> alerts (clearLog s) = alerts s @ [''Chat log cleared'']
   \<and> readAll (click ClearChat s) = []
   \<and> alerts (click ClearChat s) = alerts s @ [''Chat log cleared'']"
  by (simp add: clearLog_def click_def readAll_def querySelectorAll_div_def descendants_def
      alert_def console_log_def)

text \<open>
  C10: when the log is empty and the chat container has lines, the export names its file
  by the prefix game-chat and the time read after the lines were stamped; the export of
  a log that is not empty uses the prefix game-chat-log. For one and the same time the
  two names differ.
\<close>

theorem fallback_file_name:
  "(readAll s = [] \<and> getElementById ''chatlines'' (body s) = Some e
      \<and> querySelectorAll_div_line e \<noteq> [] \<longrightarrow>
      downloads (downloadLog s) = downloads s @
        [\<lparr>filename = ''game-chat-'' @
             filestamp_of (clock s (ticks s + length (querySelectorAll_div_line e))) @ ''.txt'',
          mime = ''text/plain'',
          content = join newline
            (chatLines_forEach (clock s) (ticks s) (querySelectorAll_div_line e))\<rparr>])
   \<and> (readAll s \<noteq> [] \<longrightarrow>
      filename (last (downloads (downloadLog s))) =
        ''game-chat-log-'' @ filestamp_of (clock s (ticks s)) @ ''.txt'')
   \<and> ''game-chat-'' @ filestamp_of d @ ''.txt'' \<noteq> ''game-chat-log-'' @ filestamp_of d @ ''.txt''"
proof -
  have "downloads (downloadLog s) = downloads s @
        [\<lparr>filename = ''game-chat-'' @
             filestamp_of (clock s (ticks s + length (querySelectorAll_div_line e))) @ ''.txt'',
          mime = ''text/plain'',
          content = join newline
            (chatLines_forEach (clock s) (ticks s) (querySelectorAll_div_line e))\<rparr>]"
    if "readAll s = []" and "getElementById ''chatlines'' (body s) = Some e"
      and "querySelectorAll_div_line e \<noteq> []"
    using downloadLog_fallback [OF that(1)] downloadCurrentChat_lines [OF that(2,3)] by simp
  moreover have "filename (last (downloads (downloadLog s))) =
        ''game-chat-log-'' @ filestamp_of (clock s (ticks s)) @ ''.txt''"
    if "readAll s \<noteq> []"
    using downloadLog_primary [OF that] by simp
  moreover have "''game-chat-'' @ filestamp_of d @ ''.txt'' \<noteq> ''game-chat-log-'' @ filestamp_of d @ ''.txt''"
    by (rule length_neq) simp
  ultimately show ?thesis by blast
qed

theorem fallback_file_name_witness:
  "filename (last (downloads (downloadLog (fresh host_addChatLine chat_window))))
     = ''game-chat-2024-01-02T03-04-05.txt''
   \<and> filename (last (downloads (downloadLog one_logged)))
     = ''game-chat-log-2024-01-02T03-04-05.txt''"
proof -
  let ?s = "fresh host_addChatLine chat_window"
  have "readAll ?s = [] \<and> getElementById ''chatlines'' (body ?s) = Some (hd chat_window)
      \<and> querySelectorAll_div_line (hd chat_window) \<noteq> []"
    by (simp add: readAll_fresh window_with_line lines_of_window)
  with fallback_file_name [of ?s "hd chat_window" date0]
  have "downloads (downloadLog ?s) = downloads ?s @
        [\<lparr>filename = ''game-chat-'' @
             filestamp_of (clock ?s (ticks ?s + length (querySelectorAll_div_line (hd chat_window)))) @ ''.txt'',
          mime = ''text/plain'',
          content = join newline
            (chatLines_forEach (clock ?s) (ticks ?s) (querySelectorAll_div_line (hd chat_window)))\<rparr>]"
    by blast
  then have a: "filename (last (downloads (downloadLog ?s))) = ''game-chat-2024-01-02T03-04-05.txt''"
    by (simp add: lines_of_window fresh_fields(5) filestamp_fresh)
  have "readAll one_logged \<noteq> []" by (simp add: readAll_one_logged)
  with fallback_file_name [of one_logged "hd chat_window" date0]
  have "filename (last (downloads (downloadLog one_logged))) =
        ''game-chat-log-'' @ filestamp_of (clock one_logged (ticks one_logged)) @ ''.txt''"
    by blast
  then have b: "filename (last (downloads (downloadLog one_logged)))
     = ''game-chat-log-2024-01-02T03-04-05.txt''"
    by (simp add: filestamp_fresh)
  from a b show ?thesis by simp
qed

end
